theory Spec2Isabelle
  imports Main "HOL-Library.Sublist" "HOL-Library.AList"
begin

section \<open>Python string operations used by the pipeline\<close>

text \<open>
  A Python \<open>str\<close> is modelled as a \<open>string\<close> whose characters are code points below 256.
  \<open>isspace\<close> lists the code points below 256 for which Python's \<open>str.isspace\<close> holds;
  \<open>lower_char\<close> is \<open>str.lower\<close> on one such code point.
\<close>

definition isspace :: "char \<Rightarrow> bool" where
  "isspace c = (c \<in> set [CHR 0x09, CHR 0x0A, CHR 0x0B, CHR 0x0C, CHR 0x0D,
                          CHR 0x1C, CHR 0x1D, CHR 0x1E, CHR 0x1F, CHR 0x20,
                          CHR 0x85, CHR 0xA0])"

definition lower_char :: "char \<Rightarrow> char" where
  "lower_char c =
     (let n = (of_char c :: nat)
      in if (65 \<le> n \<and> n \<le> 90) \<or> (192 \<le> n \<and> n \<le> 222 \<and> n \<noteq> 215)
         then char_of (n + 32) else c)"

definition lower :: "string \<Rightarrow> string" where
  "lower s = map lower_char s"

text \<open>\<open>s.strip()\<close>: leading and trailing whitespace removed.\<close>

definition strip :: "string \<Rightarrow> string" where
  "strip s = rev (dropWhile isspace (rev (dropWhile isspace s)))"

text \<open>\<open>s.startswith(p)\<close>.\<close>

definition startswith :: "string \<Rightarrow> string \<Rightarrow> bool" where
  "startswith s p = prefix p s"

text \<open>\<open>sub in s\<close>: substring test.\<close>

fun contains :: "string \<Rightarrow> string \<Rightarrow> bool" where
  "contains [] sub = (sub = [])"
| "contains (c # cs) sub = (prefix sub (c # cs) \<or> contains cs sub)"

text \<open>
  \<open>s.split(sep)\<close> for a non-empty separator: a left-to-right scan for non-overlapping
  occurrences; \<open>cur\<close> is the piece being collected. Python raises ValueError on an empty
  separator; every separator in the source is a non-empty literal, and the model never
  matches an empty one.
\<close>

function split_from :: "string \<Rightarrow> string \<Rightarrow> string \<Rightarrow> string list" where
  "split_from cur [] sep = [cur]"
| "split_from cur (c # cs) sep =
     (if sep \<noteq> [] \<and> prefix sep (c # cs)
      then cur # split_from [] (drop (length sep) (c # cs)) sep
      else split_from (cur @ [c]) cs sep)"
  by pat_completeness auto
termination
  by (relation "measure (\<lambda>(cur, s, sep). length s)") (auto simp: neq_Nil_conv)

definition split :: "string \<Rightarrow> string \<Rightarrow> string list" where
  "split s sep = split_from [] s sep"

text \<open>\<open>s.replace(old, new)\<close> for a non-empty \<open>old\<close>: every non-overlapping occurrence,
  scanning from the left.\<close>

function replace :: "string \<Rightarrow> string \<Rightarrow> string \<Rightarrow> string" where
  "replace [] old new = []"
| "replace (c # cs) old new =
     (if old \<noteq> [] \<and> prefix old (c # cs)
      then new @ replace (drop (length old) (c # cs)) old new
      else c # replace cs old new)"
  by pat_completeness auto
termination
  by (relation "measure (\<lambda>(s, old, new). length s)") (auto simp: neq_Nil_conv)

text \<open>\<open>sep.join(xs)\<close>.\<close>

fun join :: "string \<Rightarrow> string list \<Rightarrow> string" where
  "join sep [] = []"
| "join sep [x] = x"
| "join sep (x # y # ys) = x @ sep @ join sep (y # ys)"

section \<open>Thread parser (requirement_agent.py)\<close>

text \<open>
  An email is a Python dict from field names to strings, built by assignment in
  \<open>_parse_single_email\<close>: an association list in insertion order, \<open>d[k] = v\<close> being
  \<open>AList.update k v d\<close> and \<open>d.get(k)\<close> being \<open>map_of d k\<close>. A dict is truthy when it
  has at least one key.
\<close>

type_synonym email = "(string \<times> string) list"

definition get_or :: "email \<Rightarrow> string \<Rightarrow> string \<Rightarrow> string" where
  "get_or d k dflt = (case map_of d k of None \<Rightarrow> dflt | Some v \<Rightarrow> v)"

record thread =
  thread_id :: string
  emails :: "email list"

record parse_state =
  email_data :: email
  body_lines :: "string list"
  parsing_body :: bool

text \<open>One iteration of the \<open>for line in lines\<close> loop of \<open>_parse_single_email\<close>.\<close>

definition parse_line :: "parse_state \<Rightarrow> string \<Rightarrow> parse_state" where
  "parse_line st line =
     (if startswith line ''From:'' then
        st\<lparr>email_data := AList.update ''from'' (strip (replace line ''From:'' [])) (email_data st)\<rparr>
      else if startswith line ''To:'' then
        st\<lparr>email_data := AList.update ''to'' (strip (replace line ''To:'' [])) (email_data st)\<rparr>
      else if startswith line ''Date:'' then
        st\<lparr>email_data := AList.update ''date'' (strip (replace line ''Date:'' [])) (email_data st)\<rparr>
      else if startswith line ''Subject:'' then
        st\<lparr>email_data := AList.update ''subject'' (strip (replace line ''Subject:'' [])) (email_data st),
           parsing_body := True\<rparr>
      else if parsing_body st \<and> strip line \<noteq> ''---'' then
        st\<lparr>body_lines := body_lines st @ [strip line]\<rparr>
      else st)"

definition nonblank_lines :: "string \<Rightarrow> string list" where
  "nonblank_lines email_text = filter (\<lambda>line. strip line \<noteq> []) (split email_text ''\<newline>'')"

definition parse_single_email :: "string \<Rightarrow> email" where
  "parse_single_email email_text =
     (let st = foldl parse_line
                 \<lparr>email_data = [], body_lines = [], parsing_body = False\<rparr>
                 (nonblank_lines email_text)
      in AList.update ''body'' (join ''\<newline>'' (body_lines st)) (email_data st))"

text \<open>The inner loop of \<open>parse_email_file\<close> over the email parts of one block.\<close>

fun collect_emails :: "string list \<Rightarrow> email list \<Rightarrow> email list" where
  "collect_emails [] ems = ems"
| "collect_emails (part # parts) ems =
     (if strip part = [] then collect_emails parts ems
      else (let e = parse_single_email part
            in if e \<noteq> [] then collect_emails parts (ems @ [e])
               else collect_emails parts ems))"

text \<open>The outer loop over the thread blocks. \<open>lines[0]\<close> always exists, because
  \<open>split\<close> returns at least one piece.\<close>

fun parse_blocks :: "string list \<Rightarrow> thread list \<Rightarrow> thread list" where
  "parse_blocks [] threads = threads"
| "parse_blocks (block # blocks) threads =
     (let lines = split (strip block) ''\<newline>'';
          tid = strip (hd lines);
          ems = collect_emails (tl (split block ''---\<newline>'')) []
      in if ems \<noteq> [] then parse_blocks blocks (threads @ [\<lparr>thread_id = tid, emails = ems\<rparr>])
         else parse_blocks blocks threads)"

text \<open>\<open>parse_email_file\<close>, on the text read from the file.\<close>

definition parse_email_file :: "string \<Rightarrow> thread list" where
  "parse_email_file content = parse_blocks (tl (split content ''THREAD_ID: '')) []"

section \<open>The delegated collaborator (ai_processor.py)\<close>

text \<open>
  Any Python exception, with its message. The chat-completion service is outside the
  program: a call either raises or returns a response whose first choice carries a
  content that is a string or \<open>None\<close>. The sampling temperature (a float constant of
  each call site) is left out of the request.
\<close>

datatype error = Exception string

type_synonym completion = "error + string option"

record chat_request =
  req_model :: "string option"
  req_system :: string
  req_user :: string
  req_max_tokens :: nat

record config =
  AZURE_OPENAI_API_KEY :: "string option"
  AZURE_OPENAI_API_VERSION :: string
  AZURE_OPENAI_ENDPOINT :: "string option"
  AZURE_OPENAI_DEPLOYMENT :: "string option"
  OPENAI_API_KEY :: "string option"
  OPENAI_MODEL :: string

text \<open>The two client constructors of the SDK; each may raise.\<close>

record sdk =
  AzureOpenAI :: "string \<Rightarrow> string \<Rightarrow> string option \<Rightarrow> error + (chat_request \<Rightarrow> completion)"
  OpenAI :: "string option \<Rightarrow> error + (chat_request \<Rightarrow> completion)"

record AIEmailProcessor =
  client :: "chat_request \<Rightarrow> completion"
  model :: "string option"
  use_azure :: bool

text \<open>\<open>AIEmailProcessor.__init__\<close>: the Azure client when its key is set and non-empty.\<close>

definition AIEmailProcessor_init :: "config \<Rightarrow> sdk \<Rightarrow> error + AIEmailProcessor" where
  "AIEmailProcessor_init cfg lib =
     (if AZURE_OPENAI_API_KEY cfg \<noteq> None \<and> AZURE_OPENAI_API_KEY cfg \<noteq> Some [] then
        (case AzureOpenAI lib (the (AZURE_OPENAI_API_KEY cfg)) (AZURE_OPENAI_API_VERSION cfg)
                (AZURE_OPENAI_ENDPOINT cfg) of
           Inl e \<Rightarrow> Inl e
         | Inr c \<Rightarrow> Inr \<lparr>client = c, model = AZURE_OPENAI_DEPLOYMENT cfg, use_azure = True\<rparr>)
      else
        (case OpenAI lib (OPENAI_API_KEY cfg) of
           Inl e \<Rightarrow> Inl e
         | Inr c \<Rightarrow> Inr \<lparr>client = c, model = Some (OPENAI_MODEL cfg), use_azure = False\<rparr>))"

text \<open>An f-string prints a missing field (\<open>email.get(k)\<close> is \<open>None\<close>) as \<open>None\<close>.\<close>

definition fmt :: "string option \<Rightarrow> string" where
  "fmt v = (case v of None \<Rightarrow> ''None'' | Some s \<Rightarrow> s)"

definition classify_emails_text :: "thread \<Rightarrow> string" where
  "classify_emails_text thread =
     join ''\<newline>\<newline>''
       (map (\<lambda>email. ''From: '' @ fmt (map_of email ''from'') @ ''\<newline>To: '' @ fmt (map_of email ''to'')
                     @ ''\<newline>Subject: '' @ fmt (map_of email ''subject'')
                     @ ''\<newline>Body: '' @ fmt (map_of email ''body''))
            (emails thread))"

definition classify_prompt :: "thread \<Rightarrow> string" where
  "classify_prompt thread =
     ''Analyze the following email thread and classify it as either 'requirement' or 'general'.\<newline>''
     @ ''\<newline>A 'requirement' thread contains:\<newline>- Technical requirements\<newline>- Feature requests\<newline>''
     @ ''- System specifications\<newline>- Project scope discussions\<newline>- Business needs\<newline>''
     @ ''\<newline>A 'general' thread contains:\<newline>- Casual conversations\<newline>''
     @ ''- Meeting follow-ups without requirements\<newline>- Administrative messages\<newline>''
     @ ''- Holiday schedules\<newline>- Thank you notes\<newline>\<newline>Email Thread:\<newline>''
     @ classify_emails_text thread
     @ ''\<newline>\<newline>Response format: Just respond with either 'requirement' or 'general'.''"

text \<open>
  \<open>AIEmailProcessor.classify_email_thread\<close>. Everything from the call to the
  normalisation of the answer is inside one \<open>try\<close>, whose \<open>except Exception\<close> returns
  \<open>general\<close>: a raising call and a content of \<open>None\<close> (on which \<open>.strip()\<close> raises) both
  end there. The result is a sum only because the caller wraps the call in a \<open>try\<close> of
  its own.
\<close>

definition classify_request :: "AIEmailProcessor \<Rightarrow> thread \<Rightarrow> chat_request" where
  "classify_request self thread =
     \<lparr>req_model = model self,
      req_system = ''You are an email classification expert.'',
      req_user = classify_prompt thread,
      req_max_tokens = 10\<rparr>"

definition classify_email_thread :: "AIEmailProcessor \<Rightarrow> thread \<Rightarrow> error + string" where
  "classify_email_thread self thread =
     (case client self (classify_request self thread) of
        Inl e \<Rightarrow> Inr ''general''
      | Inr None \<Rightarrow> Inr ''general''
      | Inr (Some content) \<Rightarrow>
          (let classification = lower (strip content)
           in Inr (if classification \<in> set [''requirement'', ''general'']
                   then classification else ''general'')))"

text \<open>The two shapes of a requirement item; \<open>extraction_method\<close> is its discriminant.\<close>

datatype requirement_item =
    AI_item (extracted_requirements: string) (model_used: "string option")
  | Keyword_item (item_text: string) (item_from: "string option") (item_date: "string option")

fun extraction_method :: "requirement_item \<Rightarrow> string" where
  "extraction_method (AI_item t m) = ''AI''"
| "extraction_method (Keyword_item t f d) = ''keyword''"

definition extract_emails_text :: "thread \<Rightarrow> string" where
  "extract_emails_text thread =
     join ''\<newline>\<newline>''
       (map (\<lambda>email. ''From: '' @ fmt (map_of email ''from'') @ ''\<newline>Date: '' @ fmt (map_of email ''date'')
                     @ ''\<newline>Body: '' @ fmt (map_of email ''body''))
            (emails thread))"

definition extract_prompt :: "thread \<Rightarrow> string" where
  "extract_prompt thread =
     ''Extract all technical requirements from this email thread.\<newline>\<newline>''
     @ ''For each requirement, provide:\<newline>1. Requirement text (clear and concise)\<newline>''
     @ ''2. Category (e.g., functionality, performance, integration, security, deployment)\<newline>''
     @ ''3. Priority (high, medium, low)\<newline>\<newline>Email Thread:\<newline>''
     @ extract_emails_text thread
     @ ''\<newline>\<newline>Format your response as a numbered list with categories.''"

text \<open>\<open>AIEmailProcessor.extract_requirements\<close>: its own \<open>except Exception\<close> returns an
  empty list.\<close>

definition extract_request :: "AIEmailProcessor \<Rightarrow> thread \<Rightarrow> chat_request" where
  "extract_request self thread =
     \<lparr>req_model = model self,
      req_system = ''You are a requirements extraction expert.'',
      req_user = extract_prompt thread,
      req_max_tokens = 1000\<rparr>"

definition ai_extract_requirements :: "AIEmailProcessor \<Rightarrow> thread \<Rightarrow> error + requirement_item list" where
  "ai_extract_requirements self thread =
     (case client self (extract_request self thread) of
        Inl e \<Rightarrow> Inr []
      | Inr None \<Rightarrow> Inr []
      | Inr (Some content) \<Rightarrow> Inr [AI_item (strip content) (model self)])"

section \<open>Classifier and extractor (requirement_agent.py)\<close>

record RequirementAgent =
  use_ai :: bool
  ai_processor :: "AIEmailProcessor option"

text \<open>
  \<open>RequirementAgent.__init__\<close>. The attribute \<open>ai_processor\<close> is only assigned when the
  processor was built; \<open>None\<close> stands for the missing attribute. The database handle is
  passed to the operations that use it.
\<close>

definition RequirementAgent_init :: "bool \<Rightarrow> config \<Rightarrow> sdk \<Rightarrow> RequirementAgent" where
  "RequirementAgent_init use_ai_arg cfg lib =
     (if use_ai_arg then
        (case AIEmailProcessor_init cfg lib of
           Inr p \<Rightarrow> \<lparr>use_ai = True, ai_processor = Some p\<rparr>
         | Inl e \<Rightarrow> \<lparr>use_ai = False, ai_processor = None\<rparr>)
      else \<lparr>use_ai = False, ai_processor = None\<rparr>)"

definition requirement_keywords :: "string list" where
  "requirement_keywords =
     [''requirement'', ''need'', ''feature'', ''functionality'',
      ''system'', ''integration'', ''users'', ''deployment'',
      ''timeline'', ''alert'', ''notification'', ''access'',
      ''permission'', ''tracking'', ''audit'', ''compliance'',
      ''dashboard'', ''report'', ''api'', ''database'',
      ''authentication'', ''security'', ''performance'',
      ''scalability'', ''interface'', ''workflow'']"

definition email_has_keyword :: "email \<Rightarrow> bool" where
  "email_has_keyword email =
     (let text = lower (get_or email ''subject'' [] @ '' '' @ get_or email ''body'' [])
      in list_ex (\<lambda>keyword. contains text keyword) requirement_keywords)"

fun any_email_has_keyword :: "email list \<Rightarrow> bool" where
  "any_email_has_keyword [] = False"
| "any_email_has_keyword (email # rest) =
     (if email_has_keyword email then True else any_email_has_keyword rest)"

definition is_requirement_thread_keyword :: "thread \<Rightarrow> bool" where
  "is_requirement_thread_keyword thread = any_email_has_keyword (emails thread)"

definition keyword_label :: "thread \<Rightarrow> string" where
  "keyword_label thread =
     (if is_requirement_thread_keyword thread then ''requirement'' else ''general'')"

text \<open>
  \<open>classify_thread\<close>. The \<open>try\<close> covers the attribute access and the call, so a missing
  processor and a raising call both reach the \<open>except\<close> branch, which classifies by keyword.
\<close>

definition classify_thread :: "RequirementAgent \<Rightarrow> thread \<Rightarrow> string" where
  "classify_thread self thread =
     (if use_ai self then
        (case ai_processor self of
           None \<Rightarrow> keyword_label thread
         | Some p \<Rightarrow>
             (case classify_email_thread p thread of
                Inr category \<Rightarrow> category
              | Inl e \<Rightarrow> keyword_label thread))
      else keyword_label thread)"

fun extract_basic_loop :: "email list \<Rightarrow> requirement_item list \<Rightarrow> requirement_item list" where
  "extract_basic_loop [] requirements = requirements"
| "extract_basic_loop (email # rest) requirements =
     (let body = get_or email ''body'' []
      in if list_ex (\<lambda>keyword. contains (lower body) keyword) [''need'', ''require'', ''should'', ''must'']
         then extract_basic_loop rest
                (requirements @ [Keyword_item body (map_of email ''from'') (map_of email ''date'')])
         else extract_basic_loop rest requirements)"

definition extract_requirements_basic :: "thread \<Rightarrow> requirement_item list" where
  "extract_requirements_basic thread = extract_basic_loop (emails thread) []"

definition extract_requirements :: "RequirementAgent \<Rightarrow> thread \<Rightarrow> requirement_item list" where
  "extract_requirements self thread =
     (if use_ai self then
        (case ai_processor self of
           None \<Rightarrow> extract_requirements_basic thread
         | Some p \<Rightarrow>
             (case ai_extract_requirements p thread of
                Inr items \<Rightarrow> items
              | Inl e \<Rightarrow> extract_requirements_basic thread))
      else extract_requirements_basic thread)"

section \<open>Persistence and orchestration (requirement_agent.py)\<close>

record metadata =
  meta_client :: "string option"
  meta_subject :: "string option"
  first_date :: "string option"
  last_date :: "string option"

record document =
  doc_thread_id :: string
  category :: string
  doc_emails :: "email list"
  email_count :: nat
  requirements :: "requirement_item list"
  metadata :: metadata
  created_at :: nat
  classification_method :: string

text \<open>The document prepared by \<open>store_requirement_thread\<close>; \<open>now\<close> is what
  \<open>datetime.now()\<close> returns.\<close>

definition prepare_document :: "RequirementAgent \<Rightarrow> nat \<Rightarrow> thread \<Rightarrow> document" where
  "prepare_document self now thread =
     \<lparr>doc_thread_id = thread_id thread,
      category = ''requirement'',
      doc_emails = emails thread,
      email_count = length (emails thread),
      requirements = extract_requirements self thread,
      metadata =
        \<lparr>meta_client = (if emails thread \<noteq> [] then map_of (hd (emails thread)) ''from'' else None),
         meta_subject = (if emails thread \<noteq> [] then map_of (hd (emails thread)) ''subject'' else None),
         first_date = (if emails thread \<noteq> [] then map_of (hd (emails thread)) ''date'' else None),
         last_date = (if emails thread \<noteq> [] then map_of (last (emails thread)) ''date'' else None)\<rparr>,
      created_at = now,
      classification_method = (if use_ai self then ''AI'' else ''keyword'')\<rparr>"

text \<open>
  The collection is the sequence of its documents in natural order.
  \<open>update_one({'thread_id': tid}, {'$set': doc}, upsert=True)\<close> overwrites the fields of
  the first document whose \<open>thread_id\<close> is \<open>tid\<close> (all the fields a stored document
  has), and inserts \<open>doc\<close> when there is none.
\<close>

fun update_one_upsert :: "string \<Rightarrow> document \<Rightarrow> document list \<Rightarrow> document list" where
  "update_one_upsert tid doc [] = [doc]"
| "update_one_upsert tid doc (d # ds) =
     (if doc_thread_id d = tid then doc # ds else d # update_one_upsert tid doc ds)"

definition store_requirement_thread ::
    "RequirementAgent \<Rightarrow> nat \<Rightarrow> document list \<Rightarrow> thread \<Rightarrow> bool \<times> document list" where
  "store_requirement_thread self now coll thread =
     (let category = classify_thread self thread
      in if category \<noteq> ''requirement'' then (False, coll)
         else (True, update_one_upsert (thread_id thread) (prepare_document self now thread) coll))"

text \<open>The loop of \<open>process_all_requirements\<close>; \<open>clock i\<close> is the time read while the
  \<open>i\<close>-th thread is processed.\<close>

fun process_threads ::
    "RequirementAgent \<Rightarrow> (nat \<Rightarrow> nat) \<Rightarrow> nat \<Rightarrow> thread list \<Rightarrow> nat \<Rightarrow> document list
       \<Rightarrow> nat \<times> document list" where
  "process_threads self clock i [] requirement_count coll = (requirement_count, coll)"
| "process_threads self clock i (thread # rest) requirement_count coll =
     (case store_requirement_thread self (clock i) coll thread of
        (True, coll') \<Rightarrow> process_threads self clock (Suc i) rest (requirement_count + 1) coll'
      | (False, coll') \<Rightarrow> process_threads self clock (Suc i) rest requirement_count coll')"

record summary =
  processed :: nat
  stored :: nat
  skipped :: nat

definition process_all_requirements ::
    "RequirementAgent \<Rightarrow> (nat \<Rightarrow> nat) \<Rightarrow> string \<Rightarrow> document list \<Rightarrow> summary \<times> document list" where
  "process_all_requirements self clock content coll =
     (let threads = parse_email_file content;
          (requirement_count, coll') = process_threads self clock 1 threads 0 coll
      in (\<lparr>processed = length threads,
           stored = requirement_count,
           skipped = length threads - requirement_count\<rparr>, coll'))"

section \<open>Reference definitions for the properties\<close>

text \<open>The email parts of a block that are not blank, and the thread a block yields.\<close>

definition email_parts :: "string \<Rightarrow> string list" where
  "email_parts block = filter (\<lambda>part. strip part \<noteq> []) (tl (split block ''---\<newline>''))"

definition thread_of_block :: "string \<Rightarrow> thread" where
  "thread_of_block block =
     \<lparr>thread_id = strip (hd (split (strip block) ''\<newline>'')),
      emails = map parse_single_email (email_parts block)\<rparr>"

text \<open>What the lines of a segment determine: whether a line is a header line, the value
  a header line gives its field, the last header line of a kind, and the body.\<close>

definition has_header_prefix :: "string \<Rightarrow> bool" where
  "has_header_prefix line =
     (startswith line ''From:'' \<or> startswith line ''To:'' \<or> startswith line ''Date:''
      \<or> startswith line ''Subject:'')"

definition header_value :: "string \<Rightarrow> string \<Rightarrow> string" where
  "header_value p line = strip (replace line p [])"

definition field_of_lines :: "string \<Rightarrow> string list \<Rightarrow> string option" where
  "field_of_lines p ls = map_option (header_value p) (find (\<lambda>line. startswith line p) (rev ls))"

definition body_candidates :: "string list \<Rightarrow> string list" where
  "body_candidates ls = drop 1 (dropWhile (\<lambda>line. \<not> startswith line ''Subject:'') ls)"

definition body_of_lines :: "string list \<Rightarrow> string" where
  "body_of_lines ls =
     join ''\<newline>''
       (map strip (filter (\<lambda>line. \<not> has_header_prefix line \<and> strip line \<noteq> ''---'')
                          (body_candidates ls)))"

text \<open>The body as the specification words it: every non-blank line after the
  \<open>Subject:\<close> line that is not exactly the separator token, newline-joined.\<close>

definition spec_body :: "string \<Rightarrow> string" where
  "spec_body email_text =
     join ''\<newline>'' (filter (\<lambda>line. line \<noteq> ''---'') (body_candidates (nonblank_lines email_text)))"

text \<open>A document with its time stamp blanked, to compare two runs.\<close>

definition erase_created_at :: "document \<Rightarrow> document" where
  "erase_created_at d = d\<lparr>created_at := 0\<rparr>"

definition requirement_threads :: "RequirementAgent \<Rightarrow> thread list \<Rightarrow> thread list" where
  "requirement_threads self ts = filter (\<lambda>t. classify_thread self t = ''requirement'') ts"

text \<open>Upserting a sequence of documents, each under its own thread id.\<close>

definition upsert_all :: "document list \<Rightarrow> document list \<Rightarrow> document list" where
  "upsert_all ds coll = foldl (\<lambda>c d. update_one_upsert (doc_thread_id d) d c) coll ds"

text \<open>The state \<open>_parse_single_email\<close> starts its loop in.\<close>

definition st0 :: parse_state where
  "st0 = \<lparr>email_data = [], body_lines = [], parsing_body = False\<rparr>"

text \<open>The collection a run leaves, the first document stored under a thread id, and the
  last thread of a sequence that is labelled \<open>requirement\<close> and carries a given id.\<close>

definition run_store :: "RequirementAgent \<Rightarrow> (nat \<Rightarrow> nat) \<Rightarrow> string \<Rightarrow> document list \<Rightarrow> document list" where
  "run_store self clock content coll = snd (process_all_requirements self clock content coll)"

definition find_doc :: "string \<Rightarrow> document list \<Rightarrow> document option" where
  "find_doc tid coll = find (\<lambda>d. doc_thread_id d = tid) coll"

definition last_requirement_thread :: "RequirementAgent \<Rightarrow> string \<Rightarrow> thread list \<Rightarrow> thread option" where
  "last_requirement_thread self tid ts
     = find (\<lambda>t. thread_id t = tid) (rev (requirement_threads self ts))"

text \<open>Two agents answer alike on a sequence of threads: same mode, same label for every
  thread, same items for every thread labelled \<open>requirement\<close>.\<close>

definition answers_alike :: "RequirementAgent \<Rightarrow> RequirementAgent \<Rightarrow> thread list \<Rightarrow> bool" where
  "answers_alike a b ts =
     (use_ai a = use_ai b
      \<and> list_all (\<lambda>t. classify_thread a t = classify_thread b t
                      \<and> (classify_thread a t = ''requirement''
                           \<longrightarrow> extract_requirements a t = extract_requirements b t)) ts)"

text \<open>Collaborators and inputs of the scenarios.\<close>

definition failing_client :: "chat_request \<Rightarrow> completion" where
  "failing_client req = Inl (Exception ''Connection error.'')"

definition extraction_failing_client :: "chat_request \<Rightarrow> completion" where
  "extraction_failing_client req =
     (if req_max_tokens req = 10 then Inr (Some ''requirement'')
      else Inl (Exception ''Request timed out.''))"

definition sdk_with :: "(chat_request \<Rightarrow> completion) \<Rightarrow> sdk" where
  "sdk_with c = \<lparr>AzureOpenAI = (\<lambda>key version endpoint. Inr c), OpenAI = (\<lambda>key. Inr c)\<rparr>"

definition sdk_without_credentials :: sdk where
  "sdk_without_credentials =
     \<lparr>AzureOpenAI = (\<lambda>key version endpoint. Inl (Exception ''Missing credentials'')),
      OpenAI = (\<lambda>key. case key of None \<Rightarrow> Inl (Exception ''The api_key client option must be set'')
                        | Some k \<Rightarrow> Inr failing_client)\<rparr>"

definition openai_config :: config where
  "openai_config =
     \<lparr>AZURE_OPENAI_API_KEY = None, AZURE_OPENAI_API_VERSION = ''2024-02-15-preview'',
      AZURE_OPENAI_ENDPOINT = None, AZURE_OPENAI_DEPLOYMENT = None,
      OPENAI_API_KEY = Some ''sk-test'', OPENAI_MODEL = ''gpt-4''\<rparr>"

definition empty_config :: config where
  "empty_config =
     \<lparr>AZURE_OPENAI_API_KEY = None, AZURE_OPENAI_API_VERSION = ''2024-02-15-preview'',
      AZURE_OPENAI_ENDPOINT = None, AZURE_OPENAI_DEPLOYMENT = None,
      OPENAI_API_KEY = None, OPENAI_MODEL = ''gpt-4''\<rparr>"

definition sso_thread :: thread where
  "sso_thread =
     \<lparr>thread_id = ''THREAD-A'',
      emails = [[(''from'', ''alice@example.com''), (''subject'', ''Login''),
                 (''body'', ''Please add SSO authentication support'')]]\<rparr>"

definition dashboard_thread :: thread where
  "dashboard_thread =
     \<lparr>thread_id = ''THREAD-D'',
      emails = [[(''from'', ''dave@example.com''), (''date'', ''2024-03-01''), (''subject'', ''Tracking''),
                 (''body'', ''We need a dashboard for tracking.'')]]\<rparr>"

definition scenario_file :: string where
  "scenario_file =
     ''THREAD_ID: THREAD-A\<newline>---\<newline>From: alice@example.com\<newline>To: bob@example.com\<newline>''
     @ ''Date: 2024-01-10\<newline>Subject: Login\<newline>Please add SSO authentication support\<newline>---\<newline>\<newline>''
     @ ''THREAD_ID: THREAD-B\<newline>---\<newline>From: carol@example.com\<newline>To: team@example.com\<newline>''
     @ ''Date: 2024-12-20\<newline>Subject: Greetings\<newline>Happy holidays everyone!\<newline>---\<newline>''"

definition holiday_thread :: thread where
  "holiday_thread =
     \<lparr>thread_id = ''THREAD-B'',
      emails = [[(''from'', ''carol@example.com''), (''subject'', ''Greetings''),
                 (''body'', ''Happy holidays everyone!'')]]\<rparr>"

text \<open>A collaborator that labels every thread \<open>requirement\<close> and answers an extraction
  request with a given text, and a collection left by an earlier use of the store.\<close>

definition answering_client :: "string \<Rightarrow> string \<Rightarrow> chat_request \<Rightarrow> completion" where
  "answering_client label answer req =
     (if req_max_tokens req = 10 then Inr (Some label) else Inr (Some answer))"

definition stale_collection :: "document list" where
  "stale_collection =
     [\<lparr>doc_thread_id = ''THREAD-B'', category = ''requirement'', doc_emails = [],
       email_count = 0, requirements = [],
       metadata = \<lparr>meta_client = None, meta_subject = None, first_date = None, last_date = None\<rparr>,
       created_at = 7, classification_method = ''keyword''\<rparr>]"

definition lenient_client :: "chat_request \<Rightarrow> completion" where
  "lenient_client req = Inr (Some '' Requirement\<newline>'')"

section \<open>Properties\<close>

subsection \<open>Auxiliary facts about the parser and the run\<close>

lemma split_from_not_Nil: "split_from cur s sep \<noteq> []"
  by (induction cur s sep rule: split_from.induct) simp_all

lemma split_not_Nil: "split s sep \<noteq> []"
  by (simp add: split_def split_from_not_Nil)

lemma update_not_Nil: "AList.update k v al \<noteq> []"
  by (cases al) auto

lemma parse_single_email_not_Nil: "parse_single_email email_text \<noteq> []"
  by (simp add: parse_single_email_def Let_def update_not_Nil)


lemma collect_emails_eq:
  "collect_emails parts ems = ems @ map parse_single_email (filter (\<lambda>part. strip part \<noteq> []) parts)"
  by (induction parts arbitrary: ems) (simp_all add: Let_def parse_single_email_not_Nil)

lemma parse_blocks_eq:
  "parse_blocks blocks threads
     = threads @ map thread_of_block (filter (\<lambda>block. email_parts block \<noteq> []) blocks)"
  by (induction blocks arbitrary: threads)
     (simp_all add: Let_def collect_emails_eq thread_of_block_def email_parts_def)

lemma parse_email_file_emails: "t \<in> set (parse_email_file content) \<Longrightarrow> emails t \<noteq> []"
  by (auto simp: parse_email_file_def parse_blocks_eq thread_of_block_def)


lemma set_update_one_upsert: "set (update_one_upsert tid doc coll) \<subseteq> insert doc (set coll)"
  by (induction coll) auto

lemma process_threads_docs:
  "d \<in> set (snd (process_threads self clock i ts n coll)) \<Longrightarrow>
   d \<in> set coll \<or> (\<exists>t \<in> set ts. classify_thread self t = ''requirement''
                       \<and> (\<exists>now. d = prepare_document self now t))"
proof (induction ts arbitrary: i n coll)
  case Nil
  then show ?case by simp
next
  case (Cons t ts)
  show ?case
  proof (cases "classify_thread self t = ''requirement''")
    case True
    with Cons.prems have "d \<in> set (snd (process_threads self clock (Suc i) ts (n + 1)
        (update_one_upsert (thread_id t) (prepare_document self (clock i) t) coll)))"
      by (simp add: store_requirement_thread_def)
    from Cons.IH [OF this]
      set_update_one_upsert [of "thread_id t" "prepare_document self (clock i) t" coll] True
    show ?thesis by auto
  next
    case False
    with Cons.prems have "d \<in> set (snd (process_threads self clock (Suc i) ts n coll))"
      by (simp add: store_requirement_thread_def)
    from Cons.IH [OF this] show ?thesis by auto
  qed
qed

lemma process_threads_count:
  "fst (process_threads self clock i ts n coll) = n + length (requirement_threads self ts)"
  by (induction ts arbitrary: i n coll)
     (simp_all add: store_requirement_thread_def requirement_threads_def)

lemma process_all_requirements_snd:
  "snd (process_all_requirements self clock content coll)
     = snd (process_threads self clock 1 (parse_email_file content) 0 coll)"
  by (simp add: process_all_requirements_def Let_def split: prod.splits)

subsection \<open>Normalisation of the collaborator's label\<close>

text \<open>
  C8. Whatever text the classification collaborator returns, \<open>classify_email_thread\<close>
  returns it stripped and lower-cased only when that is \<open>requirement\<close> or \<open>general\<close>;
  every other answer becomes \<open>general\<close>, so the agent's label is always one of the two.
\<close>

theorem classify_email_thread_normalizes:
  assumes "client self (classify_request self thread) = Inr (Some content)"
  shows "(lower (strip content) \<in> {''requirement'', ''general''} \<longrightarrow>
            classify_email_thread self thread = Inr (lower (strip content)))
       \<and> (lower (strip content) \<notin> {''requirement'', ''general''} \<longrightarrow>
            classify_email_thread self thread = Inr ''general'')
       \<and> classify_thread \<lparr>use_ai = True, ai_processor = Some self\<rparr> thread
            \<in> {''requirement'', ''general''}"
  using assms by (auto simp: classify_email_thread_def classify_thread_def Let_def)

theorem classify_email_thread_normalizes_witness:
  "client \<lparr>client = lenient_client, model = Some ''gpt-4'', use_azure = False\<rparr>
     (classify_request \<lparr>client = lenient_client, model = Some ''gpt-4'', use_azure = False\<rparr> sso_thread)
     = Inr (Some '' Requirement\<newline>'')
   \<and> classify_email_thread \<lparr>client = lenient_client, model = Some ''gpt-4'', use_azure = False\<rparr>
       sso_thread = Inr ''requirement''"
proof -
  let ?p = "\<lparr>client = lenient_client, model = Some ''gpt-4'', use_azure = False\<rparr>"
  have h: "client ?p (classify_request ?p sso_thread) = Inr (Some '' Requirement\<newline>'')"
    by (simp add: lenient_client_def)
  have e: "lower (strip '' Requirement\<newline>'') = ''requirement''"
    by code_simp
  from classify_email_thread_normalizes [OF h] e h show ?thesis
    by simp
qed

subsection \<open>Failure of the collaborator\<close>

text \<open>
  C1. The claim asks for the keyword heuristic's label when the classification call
  fails. On the code, with a collaborator that raises, the processor's own handler
  answers \<open>general\<close> and the agent's fallback is never reached: a thread the heuristic
  labels \<open>requirement\<close> is labelled \<open>general\<close>.
\<close>

theorem classify_thread_failure_returns_general:
  "classify_thread (RequirementAgent_init True openai_config (sdk_with failing_client)) sso_thread
     = ''general''
   \<and> keyword_label sso_thread = ''requirement''"
  by code_simp

text \<open>
  C2. The claim asks for the heuristic's items when the extraction call fails. On the
  code, for a thread the collaborator labelled \<open>requirement\<close>, a raising extraction call
  yields the empty list, while the heuristic finds one item.
\<close>

theorem extract_requirements_failure_returns_empty:
  "classify_thread (RequirementAgent_init True openai_config (sdk_with extraction_failing_client))
      dashboard_thread = ''requirement''
   \<and> extract_requirements (RequirementAgent_init True openai_config (sdk_with extraction_failing_client))
      dashboard_thread = []
   \<and> extract_requirements_basic dashboard_thread
      = [Keyword_item ''We need a dashboard for tracking.'' (Some ''dave@example.com'') (Some ''2024-03-01'')]"
  by code_simp

text \<open>
  C3. The claim asks that, when the classifier raises on every call, the threads be
  classified by the keyword heuristic and stored with method \<open>keyword\<close>. On the code,
  a run in AI mode with a collaborator that always raises stores nothing, although the
  same file in keyword mode stores a document.
\<close>

theorem failing_classifier_stores_nothing:
  "process_all_requirements (RequirementAgent_init True openai_config (sdk_with failing_client))
      clock scenario_file []
     = (\<lparr>processed = 2, stored = 0, skipped = 2\<rparr>, [])
   \<and> process_all_requirements (RequirementAgent_init False openai_config (sdk_with failing_client))
      (\<lambda>i. 0) scenario_file [] \<noteq> (\<lparr>processed = 2, stored = 0, skipped = 2\<rparr>, [])"
  by code_simp

subsection \<open>Segments and threads\<close>



text \<open>
  C5. Every thread the parser returns has at least one email, and a block without a
  non-blank email part adds no thread; a thread whose label is not \<open>requirement\<close> is
  not written; and every document a run adds to the collection comes from a parsed
  thread with emails that was labelled \<open>requirement\<close>.
\<close>

theorem empty_and_general_threads_never_stored:
  "(\<forall>t \<in> set (parse_email_file content). emails t \<noteq> [])
   \<and> (email_parts block = [] \<longrightarrow> parse_blocks (block # blocks) threads = parse_blocks blocks threads)
   \<and> (classify_thread self thread \<noteq> ''requirement''
        \<longrightarrow> store_requirement_thread self now coll thread = (False, coll))
   \<and> (\<forall>d \<in> set (snd (process_all_requirements self clock content coll)).
        d \<in> set coll
        \<or> (\<exists>t \<in> set (parse_email_file content).
              emails t \<noteq> [] \<and> classify_thread self t = ''requirement''
              \<and> (\<exists>now. d = prepare_document self now t)))"
proof -
  have a: "\<forall>t \<in> set (parse_email_file content). emails t \<noteq> []"
    using parse_email_file_emails by blast
  have b: "email_parts block = [] \<longrightarrow> parse_blocks (block # blocks) threads = parse_blocks blocks threads"
    by (simp add: parse_blocks_eq)
  have c: "classify_thread self thread \<noteq> ''requirement''
        \<longrightarrow> store_requirement_thread self now coll thread = (False, coll)"
    by (simp add: store_requirement_thread_def)
  have d: "\<forall>d \<in> set (snd (process_all_requirements self clock content coll)).
        d \<in> set coll
        \<or> (\<exists>t \<in> set (parse_email_file content).
              emails t \<noteq> [] \<and> classify_thread self t = ''requirement''
              \<and> (\<exists>now. d = prepare_document self now t))"
  proof
    fix d assume "d \<in> set (snd (process_all_requirements self clock content coll))"
    then have "d \<in> set (snd (process_threads self clock 1 (parse_email_file content) 0 coll))"
      by (simp add: process_all_requirements_snd)
    from process_threads_docs [OF this] a
    show "d \<in> set coll
        \<or> (\<exists>t \<in> set (parse_email_file content).
              emails t \<noteq> [] \<and> classify_thread self t = ''requirement''
              \<and> (\<exists>now. d = prepare_document self now t))"
      by blast
  qed
  from a b c d show ?thesis by blast
qed

theorem empty_and_general_threads_never_stored_witness:
  "email_parts ''THREAD-X\<newline>no separator here\<newline>'' = []
   \<and> parse_blocks [''THREAD-X\<newline>no separator here\<newline>''] [] = []
   \<and> classify_thread (RequirementAgent_init False empty_config sdk_without_credentials) holiday_thread
       = ''general''
   \<and> store_requirement_thread (RequirementAgent_init False empty_config sdk_without_credentials)
       0 [] holiday_thread = (False, [])"
proof -
  let ?a = "RequirementAgent_init False empty_config sdk_without_credentials"
  have h1: "email_parts ''THREAD-X\<newline>no separator here\<newline>'' = []"
    by code_simp
  have h2: "classify_thread ?a holiday_thread = ''general''"
    by code_simp
  then have h3: "classify_thread ?a holiday_thread \<noteq> ''requirement''"
    by simp
  from empty_and_general_threads_never_stored
         [where block = "''THREAD-X\<newline>no separator here\<newline>''" and blocks = "[]" and threads = "[]"
            and self = ?a and thread = holiday_thread and now = 0 and coll = "[]"]
       h1 h2 h3
  show ?thesis by simp
qed

subsection \<open>Whole-run keyword mode\<close>

text \<open>
  C10. When building the AI processor fails, an agent created with \<open>use_ai=True\<close> has
  \<open>use_ai\<close> false; it then labels every thread by the keyword heuristic, extracts by the
  keyword heuristic, and every document a run writes has classification method
  \<open>keyword\<close>.
\<close>

theorem failed_construction_switches_to_keyword_mode:
  assumes "AIEmailProcessor_init cfg lib = Inl e"
  shows "use_ai (RequirementAgent_init True cfg lib) = False
     \<and> classify_thread (RequirementAgent_init True cfg lib) thread = keyword_label thread
     \<and> extract_requirements (RequirementAgent_init True cfg lib) thread = extract_requirements_basic thread
     \<and> (\<forall>d \<in> set (snd (process_all_requirements (RequirementAgent_init True cfg lib) clock content coll)).
           d \<in> set coll \<or> classification_method d = ''keyword'')"
proof -
  let ?a = "RequirementAgent_init True cfg lib"
  have u: "use_ai ?a = False"
    using assms by (simp add: RequirementAgent_init_def)
  have k: "classify_thread ?a thread = keyword_label thread"
    using u by (simp add: classify_thread_def)
  have x: "extract_requirements ?a thread = extract_requirements_basic thread"
    using u by (simp add: extract_requirements_def)
  have s: "\<forall>d \<in> set (snd (process_all_requirements ?a clock content coll)).
           d \<in> set coll \<or> classification_method d = ''keyword''"
  proof
    fix d assume "d \<in> set (snd (process_all_requirements ?a clock content coll))"
    then have "d \<in> set (snd (process_threads ?a clock 1 (parse_email_file content) 0 coll))"
      by (simp add: process_all_requirements_snd)
    from process_threads_docs [OF this] u
    show "d \<in> set coll \<or> classification_method d = ''keyword''"
      by (auto simp: prepare_document_def)
  qed
  from u k x s show ?thesis by blast
qed

theorem failed_construction_switches_to_keyword_mode_witness:
  "AIEmailProcessor_init empty_config sdk_without_credentials
     = Inl (Exception ''The api_key client option must be set'')
   \<and> use_ai (RequirementAgent_init True empty_config sdk_without_credentials) = False
   \<and> classify_thread (RequirementAgent_init True empty_config sdk_without_credentials) sso_thread
       = ''requirement''"
proof -
  have h: "AIEmailProcessor_init empty_config sdk_without_credentials
     = Inl (Exception ''The api_key client option must be set'')"
    by (simp add: AIEmailProcessor_init_def empty_config_def sdk_without_credentials_def)
  have k: "keyword_label sso_thread = ''requirement''"
    by code_simp
  from failed_construction_switches_to_keyword_mode [OF h, of sso_thread] h k show ?thesis
    by simp
qed

subsection \<open>End-to-end scenario\<close>

text \<open>
  C7. On the file with the blocks THREAD-A (one email, body "Please add SSO
  authentication support") and THREAD-B (one email, body "Happy holidays everyone!"),
  a run in keyword mode on an empty collection stores exactly one document, for
  THREAD-A with category \<open>requirement\<close>, and reports 2 processed, 1 stored, 1 skipped.
\<close>

theorem end_to_end_scenario:
  "process_all_requirements (RequirementAgent_init False cfg lib) clock scenario_file []
     = (\<lparr>processed = 2, stored = 1, skipped = 1\<rparr>,
        [\<lparr>doc_thread_id = ''THREAD-A'',
          category = ''requirement'',
          doc_emails = [[(''from'', ''alice@example.com''), (''to'', ''bob@example.com''),
                         (''date'', ''2024-01-10''), (''subject'', ''Login''),
                         (''body'', ''Please add SSO authentication support'')]],
          email_count = 1,
          requirements = [],
          metadata = \<lparr>meta_client = Some ''alice@example.com'', meta_subject = Some ''Login'',
                       first_date = Some ''2024-01-10'', last_date = Some ''2024-01-10''\<rparr>,
          created_at = clock 1,
          classification_method = ''keyword''\<rparr>])"
  by code_simp

subsection \<open>Idempotence of a run\<close>

lemma upsert_all_Nil [simp]: "upsert_all [] coll = coll"
  by (simp add: upsert_all_def)

lemma upsert_all_Cons [simp]:
  "upsert_all (d # ds) coll = upsert_all ds (update_one_upsert (doc_thread_id d) d coll)"
  by (simp add: upsert_all_def)

lemma upsert_ids:
  "doc_thread_id d = tid \<Longrightarrow>
   map doc_thread_id (update_one_upsert tid d coll)
     = (if tid \<in> doc_thread_id ` set coll then map doc_thread_id coll
        else map doc_thread_id coll @ [tid])"
  by (induction coll) auto

lemma upsert_distinct:
  "doc_thread_id d = tid \<Longrightarrow> distinct (map doc_thread_id coll) \<Longrightarrow>
   distinct (map doc_thread_id (update_one_upsert tid d coll))"
  by (simp add: upsert_ids)

lemma upsert_id_set:
  "doc_thread_id d = tid \<Longrightarrow>
   doc_thread_id ` set (update_one_upsert tid d coll) = insert tid (doc_thread_id ` set coll)"
  by (induction coll) auto

lemma upsert_present:
  "doc_thread_id d = tid \<Longrightarrow> k \<in> doc_thread_id ` set coll \<Longrightarrow>
   k \<in> doc_thread_id ` set (update_one_upsert tid d coll)"
  by (simp add: upsert_id_set)

lemma upsert_self_present:
  "doc_thread_id d = tid \<Longrightarrow> tid \<in> doc_thread_id ` set (update_one_upsert tid d coll)"
  by (induction coll) auto

lemma upsert_overwrite:
  "doc_thread_id d = tid \<Longrightarrow>
   update_one_upsert tid e (update_one_upsert tid d coll) = update_one_upsert tid e coll"
  by (induction coll) auto

lemma upsert_commute:
  "doc_thread_id e = k \<Longrightarrow> doc_thread_id f = j \<Longrightarrow> k \<noteq> j \<Longrightarrow> k \<in> doc_thread_id ` set coll \<Longrightarrow>
   update_one_upsert j f (update_one_upsert k e coll)
     = update_one_upsert k e (update_one_upsert j f coll)"
  by (induction coll) auto

lemma upsert_erase:
  "map erase_created_at (update_one_upsert tid d coll)
     = update_one_upsert tid (erase_created_at d) (map erase_created_at coll)"
  by (induction coll) (auto simp: erase_created_at_def)

lemma upsert_all_present:
  "k \<in> doc_thread_id ` set coll \<Longrightarrow> k \<in> doc_thread_id ` set (upsert_all ds coll)"
  by (induction ds arbitrary: coll) (simp_all add: upsert_present)

lemma upsert_all_absorbs_earlier:
  "doc_thread_id e \<in> doc_thread_id ` set ds \<Longrightarrow> doc_thread_id e \<in> doc_thread_id ` set coll \<Longrightarrow>
   upsert_all ds (update_one_upsert (doc_thread_id e) e coll) = upsert_all ds coll"
proof (induction ds arbitrary: coll)
  case Nil
  then show ?case by simp
next
  case (Cons f fs)
  show ?case
  proof (cases "doc_thread_id f = doc_thread_id e")
    case True
    then show ?thesis by (simp add: upsert_overwrite)
  next
    case False
    with Cons.prems have in_fs: "doc_thread_id e \<in> doc_thread_id ` set fs"
      by auto
    have sw: "update_one_upsert (doc_thread_id f) f (update_one_upsert (doc_thread_id e) e coll)
        = update_one_upsert (doc_thread_id e) e (update_one_upsert (doc_thread_id f) f coll)"
      using False Cons.prems(2) by (intro upsert_commute) auto
    have "doc_thread_id e \<in> doc_thread_id ` set (update_one_upsert (doc_thread_id f) f coll)"
      using Cons.prems(2) by (simp add: upsert_present)
    from Cons.IH [OF in_fs this] sw show ?thesis by simp
  qed
qed

lemma upsert_all_keeps_fixed:
  "update_one_upsert (doc_thread_id d) d coll = coll \<Longrightarrow>
   doc_thread_id d \<notin> doc_thread_id ` set ds \<Longrightarrow>
   update_one_upsert (doc_thread_id d) d (upsert_all ds coll) = upsert_all ds coll"
proof (induction ds arbitrary: coll)
  case Nil
  then show ?case by simp
next
  case (Cons e es)
  from Cons.prems(2) have ne: "doc_thread_id d \<noteq> doc_thread_id e"
    and notin: "doc_thread_id d \<notin> doc_thread_id ` set es"
    by auto
  have "doc_thread_id d \<in> doc_thread_id ` set coll"
    using upsert_self_present [of d "doc_thread_id d" coll] Cons.prems(1) by simp
  then have "update_one_upsert (doc_thread_id d) d (update_one_upsert (doc_thread_id e) e coll)
      = update_one_upsert (doc_thread_id e) e (update_one_upsert (doc_thread_id d) d coll)"
    using ne by (intro upsert_commute [symmetric]) auto
  with Cons.prems(1) have "update_one_upsert (doc_thread_id d) d (update_one_upsert (doc_thread_id e) e coll)
      = update_one_upsert (doc_thread_id e) e coll"
    by simp
  from Cons.IH [OF this notin] show ?case by simp
qed

lemma upsert_all_idem: "upsert_all ds (upsert_all ds coll) = upsert_all ds coll"
proof (induction ds arbitrary: coll)
  case Nil
  then show ?case by simp
next
  case (Cons d ds)
  let ?k = "doc_thread_id d"
  let ?w = "upsert_all ds (update_one_upsert ?k d coll)"
  have pres: "?k \<in> doc_thread_id ` set ?w"
    by (simp add: upsert_all_present upsert_self_present)
  have "upsert_all ds (update_one_upsert ?k d ?w) = upsert_all ds ?w"
  proof (cases "?k \<in> doc_thread_id ` set ds")
    case True
    from upsert_all_absorbs_earlier [OF True pres] show ?thesis .
  next
    case False
    have "update_one_upsert ?k d (update_one_upsert ?k d coll) = update_one_upsert ?k d coll"
      by (simp add: upsert_overwrite)
    from upsert_all_keeps_fixed [OF this False] show ?thesis by simp
  qed
  with Cons.IH [of "update_one_upsert ?k d coll"] show ?case by simp
qed

lemma prepare_document_erase:
  "erase_created_at (prepare_document self now t) = prepare_document self 0 t"
  by (simp add: erase_created_at_def prepare_document_def)

lemma prepare_document_id: "doc_thread_id (prepare_document self now t) = thread_id t"
  by (simp add: prepare_document_def)

lemma process_threads_erased:
  "map erase_created_at (snd (process_threads self clock i ts n coll))
     = upsert_all (map (prepare_document self 0) (requirement_threads self ts))
         (map erase_created_at coll)"
  by (induction ts arbitrary: i n coll)
     (simp_all add: store_requirement_thread_def requirement_threads_def upsert_erase
        prepare_document_erase prepare_document_id)

lemma process_threads_distinct:
  "distinct (map doc_thread_id coll) \<Longrightarrow>
   distinct (map doc_thread_id (snd (process_threads self clock i ts n coll)))"
  by (induction ts arbitrary: i n coll)
     (simp_all add: store_requirement_thread_def upsert_distinct prepare_document_id)

lemma process_all_requirements_stored:
  "stored (fst (process_all_requirements self clock content coll))
     = length (requirement_threads self (parse_email_file content))"
  using process_threads_count [of self clock 1 "parse_email_file content" 0 coll]
  by (auto simp: process_all_requirements_def Let_def split: prod.splits)

lemma find_doc_upsert:
  "doc_thread_id doc = tid \<Longrightarrow>
   find_doc k (update_one_upsert tid doc coll) = (if k = tid then Some doc else find_doc k coll)"
  by (induction coll) (auto simp: find_doc_def)

lemma process_threads_find_doc_other:
  "\<forall>t \<in> set (requirement_threads self ts). thread_id t \<noteq> k \<Longrightarrow>
   find_doc k (snd (process_threads self clock i ts n coll)) = find_doc k coll"
  by (induction ts arbitrary: i n coll)
     (auto simp: store_requirement_thread_def requirement_threads_def find_doc_upsert
        prepare_document_id)

lemma find_snoc:
  "find P (xs @ [y]) = (case find P xs of Some x \<Rightarrow> Some x | None \<Rightarrow> if P y then Some y else None)"
  by (induction xs) auto

lemma last_requirement_thread_Cons:
  "last_requirement_thread self k (u # us)
     = (case last_requirement_thread self k us of
          Some t \<Rightarrow> Some t
        | None \<Rightarrow> if classify_thread self u = ''requirement'' \<and> thread_id u = k then Some u else None)"
  by (simp add: last_requirement_thread_def requirement_threads_def find_snoc split: option.splits)

lemma last_requirement_thread_None:
  "last_requirement_thread self k ts = None
     \<longleftrightarrow> (\<forall>t \<in> set (requirement_threads self ts). thread_id t \<noteq> k)"
  by (auto simp: last_requirement_thread_def find_None_iff)

lemma process_threads_find_doc_last:
  "last_requirement_thread self k ts = Some t \<Longrightarrow>
   \<exists>now. find_doc k (snd (process_threads self clock i ts n coll)) = Some (prepare_document self now t)"
proof (induction ts arbitrary: i n coll)
  case Nil
  then show ?case by (simp add: last_requirement_thread_def requirement_threads_def)
next
  case (Cons u us)
  show ?case
  proof (cases "last_requirement_thread self k us")
    case (Some t')
    with Cons.prems have "t' = t"
      by (simp add: last_requirement_thread_Cons)
    with Some Cons.IH show ?thesis
      by (auto simp: store_requirement_thread_def)
  next
    case None
    with Cons.prems have u: "classify_thread self u = ''requirement''" "thread_id u = k" "t = u"
      by (auto simp: last_requirement_thread_Cons split: if_splits)
    from None have "\<forall>t \<in> set (requirement_threads self us). thread_id t \<noteq> k"
      by (simp add: last_requirement_thread_None)
    from process_threads_find_doc_other [OF this] u show ?thesis
      by (auto simp: store_requirement_thread_def find_doc_upsert prepare_document_id)
  qed
qed

lemma process_threads_ids:
  "doc_thread_id ` set (snd (process_threads self clock i ts n coll))
     = doc_thread_id ` set coll \<union> thread_id ` set (requirement_threads self ts)"
proof (induction ts arbitrary: i n coll)
  case Nil
  show ?case by (simp add: requirement_threads_def)
next
  case (Cons u us)
  have "doc_thread_id ` set (update_one_upsert (thread_id u) (prepare_document self (clock i) u) coll)
          = insert (thread_id u) (doc_thread_id ` set coll)"
    by (simp add: upsert_id_set prepare_document_id)
  with Cons.IH show ?case
    by (auto simp: store_requirement_thread_def requirement_threads_def)
qed

lemma answers_alike_requirement_threads:
  "answers_alike a b ts \<Longrightarrow> requirement_threads b ts = requirement_threads a ts"
  by (induction ts) (auto simp: answers_alike_def requirement_threads_def)

lemma answers_alike_documents:
  "answers_alike a b ts \<Longrightarrow>
   map (prepare_document b now) (requirement_threads a ts)
     = map (prepare_document a now) (requirement_threads a ts)"
  by (induction ts) (auto simp: answers_alike_def requirement_threads_def prepare_document_def)

text \<open>
  C6, as the specification words it: a second run on the same file leaves as many
  documents as the first, differing at most in \<open>created_at\<close>. The collaborator is asked
  again in the second run. When it raises during the first run and answers during the
  second, the first run leaves no document and the second leaves two; when it answers
  both times but words the extracted requirements differently, the documents differ in
  \<open>requirements\<close>.
\<close>

theorem pipeline_idempotent_counterexample:
  "length (run_store (RequirementAgent_init True openai_config (sdk_with failing_client)) (\<lambda>i. i) scenario_file []) = 0
   \<and> length (run_store (RequirementAgent_init True openai_config (sdk_with (answering_client ''requirement'' ''1. SSO login (security, high)''))) (\<lambda>i. 100 + i) scenario_file
               (run_store (RequirementAgent_init True openai_config (sdk_with failing_client)) (\<lambda>i. i) scenario_file [])) = 2
   \<and> map requirements (run_store (RequirementAgent_init True openai_config (sdk_with (answering_client ''requirement'' ''1. SSO login (security, high)''))) (\<lambda>i. i) scenario_file [])
       = [[AI_item ''1. SSO login (security, high)'' (Some ''gpt-4'')],
          [AI_item ''1. SSO login (security, high)'' (Some ''gpt-4'')]]
   \<and> map requirements (run_store (RequirementAgent_init True openai_config (sdk_with (answering_client ''requirement'' ''1. Single sign-on''))) (\<lambda>i. 100 + i) scenario_file
                          (run_store (RequirementAgent_init True openai_config (sdk_with (answering_client ''requirement'' ''1. SSO login (security, high)''))) (\<lambda>i. i) scenario_file []))
       = [[AI_item ''1. Single sign-on'' (Some ''gpt-4'')],
          [AI_item ''1. Single sign-on'' (Some ''gpt-4'')]]"
  by (simp only: run_store_def) code_simp

text \<open>
  C6, amended. Let the agents of the two runs answer alike on the threads of the file
  (as they do in keyword mode). Then the second run leaves as many documents as the
  first, the two collections differ at most in \<open>created_at\<close>, and both runs report the
  same number of stored threads. The write is an upsert keyed by thread id: after a run
  the thread ids in the collection are those it held before and those of the threads
  labelled \<open>requirement\<close>; the first document under the id of such a thread is the one
  prepared from the last such thread with that id; the first document under any other
  id is the one that was there; and a collection without two documents of one thread id
  stays so through both runs, its size being the number of those ids.
\<close>

theorem pipeline_idempotent_when_answers_alike:
  assumes "answers_alike self1 self2 (parse_email_file content)"
  shows "length (run_store self2 clock2 content (run_store self1 clock1 content coll))
           = length (run_store self1 clock1 content coll)
       \<and> map erase_created_at (run_store self2 clock2 content (run_store self1 clock1 content coll))
           = map erase_created_at (run_store self1 clock1 content coll)
       \<and> stored (fst (process_all_requirements self2 clock2 content
                         (run_store self1 clock1 content coll)))
           = stored (fst (process_all_requirements self1 clock1 content coll))
       \<and> doc_thread_id ` set (run_store self1 clock1 content coll)
           = doc_thread_id ` set coll
             \<union> thread_id ` set (requirement_threads self1 (parse_email_file content))
       \<and> (last_requirement_thread self1 k (parse_email_file content) = Some t \<longrightarrow>
            (\<exists>now. find_doc k (run_store self1 clock1 content coll)
                      = Some (prepare_document self1 now t)))
       \<and> (last_requirement_thread self1 k (parse_email_file content) = None \<longrightarrow>
            find_doc k (run_store self1 clock1 content coll) = find_doc k coll)
       \<and> (distinct (map doc_thread_id coll) \<longrightarrow>
            distinct (map doc_thread_id (run_store self1 clock1 content coll))
            \<and> distinct (map doc_thread_id
                  (run_store self2 clock2 content (run_store self1 clock1 content coll)))
            \<and> length (run_store self1 clock1 content coll)
                = card (doc_thread_id ` set coll
                        \<union> thread_id ` set (requirement_threads self1 (parse_email_file content))))"
proof -
  let ?ts = "parse_email_file content"
  let ?once = "run_store self1 clock1 content coll"
  let ?twice = "run_store self2 clock2 content ?once"
  let ?ids = "doc_thread_id ` set coll \<union> thread_id ` set (requirement_threads self1 ?ts)"
  have r: "requirement_threads self2 ?ts = requirement_threads self1 ?ts"
    using assms by (rule answers_alike_requirement_threads)
  have p: "map (prepare_document self2 0) (requirement_threads self1 ?ts)
             = map (prepare_document self1 0) (requirement_threads self1 ?ts)"
    using assms by (rule answers_alike_documents)
  have m: "map erase_created_at ?twice = map erase_created_at ?once"
    by (simp add: run_store_def process_all_requirements_snd process_threads_erased r p
          upsert_all_idem)
  from arg_cong [OF m, of length] have l: "length ?twice = length ?once"
    by simp
  have s: "stored (fst (process_all_requirements self2 clock2 content ?once))
     = stored (fst (process_all_requirements self1 clock1 content coll))"
    by (simp add: process_all_requirements_stored r)
  have i: "doc_thread_id ` set ?once = ?ids"
    by (simp add: run_store_def process_all_requirements_snd process_threads_ids)
  have f: "last_requirement_thread self1 k ?ts = Some t \<longrightarrow>
            (\<exists>now. find_doc k ?once = Some (prepare_document self1 now t))"
    by (simp add: run_store_def process_all_requirements_snd process_threads_find_doc_last)
  have g: "last_requirement_thread self1 k ?ts = None \<longrightarrow> find_doc k ?once = find_doc k coll"
    by (simp add: run_store_def process_all_requirements_snd process_threads_find_doc_other
          last_requirement_thread_None)
  have d: "distinct (map doc_thread_id ?once) \<and> distinct (map doc_thread_id ?twice)
           \<and> length ?once = card ?ids"
    if dc: "distinct (map doc_thread_id coll)"
  proof -
    have d1: "distinct (map doc_thread_id ?once)"
      using dc by (simp add: run_store_def process_all_requirements_snd process_threads_distinct)
    then have d2: "distinct (map doc_thread_id ?twice)"
      by (simp add: run_store_def process_all_requirements_snd process_threads_distinct)
    from distinct_card [OF d1] i have "length ?once = card ?ids"
      by simp
    with d1 d2 show ?thesis by blast
  qed
  from l m s i f g d show ?thesis by blast
qed

theorem pipeline_idempotent_when_answers_alike_witness:
  "answers_alike (RequirementAgent_init True openai_config (sdk_with (answering_client ''requirement'' ''1. SSO login (security, high)''))) (RequirementAgent_init True openai_config (sdk_with (answering_client '' Requirement\<newline>'' ''  1. SSO login (security, high)\<newline>''))) (parse_email_file scenario_file)
   \<and> distinct (map doc_thread_id stale_collection)
   \<and> map doc_thread_id (run_store (RequirementAgent_init True openai_config (sdk_with (answering_client ''requirement'' ''1. SSO login (security, high)''))) (\<lambda>i. i) scenario_file stale_collection)
       = [''THREAD-B'', ''THREAD-A'']
   \<and> length (run_store (RequirementAgent_init True openai_config (sdk_with (answering_client '' Requirement\<newline>'' ''  1. SSO login (security, high)\<newline>''))) (\<lambda>i. 100 + i) scenario_file
               (run_store (RequirementAgent_init True openai_config (sdk_with (answering_client ''requirement'' ''1. SSO login (security, high)''))) (\<lambda>i. i) scenario_file stale_collection)) = 2
   \<and> distinct (map doc_thread_id
        (run_store (RequirementAgent_init True openai_config (sdk_with (answering_client '' Requirement\<newline>'' ''  1. SSO login (security, high)\<newline>''))) (\<lambda>i. 100 + i) scenario_file
           (run_store (RequirementAgent_init True openai_config (sdk_with (answering_client ''requirement'' ''1. SSO login (security, high)''))) (\<lambda>i. i) scenario_file stale_collection)))"
proof -
  let ?a = "(RequirementAgent_init True openai_config (sdk_with (answering_client ''requirement'' ''1. SSO login (security, high)'')))"
  let ?b = "(RequirementAgent_init True openai_config (sdk_with (answering_client '' Requirement\<newline>'' ''  1. SSO login (security, high)\<newline>'')))"
  let ?once = "run_store ?a (\<lambda>i. i) scenario_file stale_collection"
  have h: "answers_alike ?a ?b (parse_email_file scenario_file)"
    by code_simp
  have d: "distinct (map doc_thread_id stale_collection)"
    by (simp add: stale_collection_def)
  have o: "map doc_thread_id ?once = [''THREAD-B'', ''THREAD-A'']"
    by (simp only: run_store_def) code_simp
  from arg_cong [OF o, of length] have n: "length ?once = 2"
    by simp
  from pipeline_idempotent_when_answers_alike
         [OF h, where ?clock1.0 = "\<lambda>i. i" and ?clock2.0 = "\<lambda>i. 100 + i" and coll = stale_collection]
       d n
  have "length (run_store ?b (\<lambda>i. 100 + i) scenario_file ?once) = 2
        \<and> distinct (map doc_thread_id (run_store ?b (\<lambda>i. 100 + i) scenario_file ?once))"
    by simp
  with h d o show ?thesis by blast
qed

subsection \<open>Parsing one email segment\<close>

lemma replace_absent: "\<not> contains s p \<Longrightarrow> replace s p new = s"
  by (induction s) auto

lemma replace_prefix_once:
  "p \<noteq> [] \<Longrightarrow> \<not> contains rest p \<Longrightarrow> replace (p @ rest) p [] = rest"
  by (cases p) (simp_all add: replace_absent)

lemma startswith_Cons: "startswith l (c # p) = (\<exists>r. l = c # r \<and> startswith r p)"
  by (cases l) (auto simp: startswith_def)

lemma header_prefixes_exclusive:
  "startswith l ''From:'' \<Longrightarrow> \<not> startswith l ''To:'' \<and> \<not> startswith l ''Date:'' \<and> \<not> startswith l ''Subject:''"
  "startswith l ''To:'' \<Longrightarrow> \<not> startswith l ''From:'' \<and> \<not> startswith l ''Date:'' \<and> \<not> startswith l ''Subject:''"
  "startswith l ''Date:'' \<Longrightarrow> \<not> startswith l ''From:'' \<and> \<not> startswith l ''To:'' \<and> \<not> startswith l ''Subject:''"
  "startswith l ''Subject:'' \<Longrightarrow> \<not> startswith l ''From:'' \<and> \<not> startswith l ''To:'' \<and> \<not> startswith l ''Date:''"
  by (cases l; simp add: startswith_def)+

lemma parse_line_From:
  "startswith l ''From:'' \<Longrightarrow>
   parse_line st l = st\<lparr>email_data := AList.update ''from'' (header_value ''From:'' l) (email_data st)\<rparr>"
  by (simp add: parse_line_def header_value_def)

lemma parse_line_To:
  "startswith l ''To:'' \<Longrightarrow>
   parse_line st l = st\<lparr>email_data := AList.update ''to'' (header_value ''To:'' l) (email_data st)\<rparr>"
  using header_prefixes_exclusive(2) [of l] by (simp add: parse_line_def header_value_def)

lemma parse_line_Date:
  "startswith l ''Date:'' \<Longrightarrow>
   parse_line st l = st\<lparr>email_data := AList.update ''date'' (header_value ''Date:'' l) (email_data st)\<rparr>"
  using header_prefixes_exclusive(3) [of l] by (simp add: parse_line_def header_value_def)

lemma parse_line_Subject:
  "startswith l ''Subject:'' \<Longrightarrow>
   parse_line st l = st\<lparr>email_data := AList.update ''subject'' (header_value ''Subject:'' l) (email_data st),
                        parsing_body := True\<rparr>"
  using header_prefixes_exclusive(4) [of l] by (simp add: parse_line_def header_value_def)

lemma parse_line_other:
  "\<not> has_header_prefix l \<Longrightarrow>
   parse_line st l = (if parsing_body st \<and> strip l \<noteq> ''---''
                      then st\<lparr>body_lines := body_lines st @ [strip l]\<rparr> else st)"
  by (simp add: parse_line_def has_header_prefix_def)

lemma header_line_cases:
  obtains (From) "startswith l ''From:''" | (To) "startswith l ''To:''"
    | (Date) "startswith l ''Date:''" | (Subject) "startswith l ''Subject:''"
    | (other) "\<not> has_header_prefix l"
  by (auto simp: has_header_prefix_def)

lemma field_of_lines_snoc:
  "field_of_lines p (ls @ [l])
     = (if startswith l p then Some (header_value p l) else field_of_lines p ls)"
  by (simp add: field_of_lines_def)

lemma field_of_lines_Nil: "field_of_lines p [] = None"
  by (simp add: field_of_lines_def)

lemma parse_line_field:
  assumes "(k, p) \<in> {(''from'', ''From:''), (''to'', ''To:''), (''date'', ''Date:''), (''subject'', ''Subject:'')}"
  shows "map_of (email_data (parse_line st l)) k
           = (if startswith l p then Some (header_value p l) else map_of (email_data st) k)"
proof (cases l rule: header_line_cases)
  case From
  with assms header_prefixes_exclusive(1) [OF From] show ?thesis
    by (auto simp: parse_line_From update_conv')
next
  case To
  with assms header_prefixes_exclusive(2) [OF To] show ?thesis
    by (auto simp: parse_line_To update_conv')
next
  case Date
  with assms header_prefixes_exclusive(3) [OF Date] show ?thesis
    by (auto simp: parse_line_Date update_conv')
next
  case Subject
  with assms header_prefixes_exclusive(4) [OF Subject] show ?thesis
    by (auto simp: parse_line_Subject update_conv')
next
  case other
  with assms show ?thesis
    by (auto simp: parse_line_other has_header_prefix_def)
qed

lemma foldl_parse_line_field:
  assumes "(k, p) \<in> {(''from'', ''From:''), (''to'', ''To:''), (''date'', ''Date:''), (''subject'', ''Subject:'')}"
  shows "map_of (email_data (foldl parse_line st0 ls)) k = field_of_lines p ls"
proof (induction ls rule: rev_induct)
  case Nil
  show ?case by (simp add: st0_def field_of_lines_Nil)
next
  case (snoc l ls)
  then show ?case
    by (simp add: parse_line_field [OF assms] field_of_lines_snoc)
qed

lemma foldl_parse_line_body:
  "body_lines (foldl parse_line st ls)
     = body_lines st
       @ map strip (filter (\<lambda>line. \<not> has_header_prefix line \<and> strip line \<noteq> ''---'')
                      (if parsing_body st then ls else body_candidates ls))"
proof (induction ls arbitrary: st)
  case Nil
  then show ?case by (simp add: body_candidates_def)
next
  case (Cons l ls)
  show ?case
  proof (cases l rule: header_line_cases)
    case From
    with header_prefixes_exclusive(1) [OF From] show ?thesis
      unfolding foldl_Cons Cons.IH
      by (simp add: parse_line_From has_header_prefix_def body_candidates_def)
  next
    case To
    with header_prefixes_exclusive(2) [OF To] show ?thesis
      unfolding foldl_Cons Cons.IH
      by (simp add: parse_line_To has_header_prefix_def body_candidates_def)
  next
    case Date
    with header_prefixes_exclusive(3) [OF Date] show ?thesis
      unfolding foldl_Cons Cons.IH
      by (simp add: parse_line_Date has_header_prefix_def body_candidates_def)
  next
    case Subject
    then show ?thesis
      unfolding foldl_Cons Cons.IH
      by (simp add: parse_line_Subject has_header_prefix_def body_candidates_def)
  next
    case other
    then have "\<not> startswith l ''Subject:''"
      by (simp add: has_header_prefix_def)
    with other show ?thesis
      unfolding foldl_Cons Cons.IH
      by (simp add: parse_line_other body_candidates_def)
  qed
qed

lemma update_key_set: "fst ` set (AList.update k v al) = insert k (fst ` set al)"
  by (induction al) auto

lemma foldl_parse_line_keys:
  "fst ` set (email_data (foldl parse_line st ls))
     \<subseteq> fst ` set (email_data st) \<union> {''from'', ''to'', ''date'', ''subject''}"
proof (induction ls arbitrary: st)
  case Nil
  show ?case by auto
next
  case (Cons l ls)
  have "fst ` set (email_data (parse_line st l))
     \<subseteq> fst ` set (email_data st) \<union> {''from'', ''to'', ''date'', ''subject''}"
  proof (cases l rule: header_line_cases)
    case From
    then show ?thesis by (simp add: parse_line_From update_key_set) blast
  next
    case To
    then show ?thesis by (simp add: parse_line_To update_key_set) blast
  next
    case Date
    then show ?thesis by (simp add: parse_line_Date update_key_set) blast
  next
    case Subject
    then show ?thesis by (simp add: parse_line_Subject update_key_set) blast
  next
    case other
    then show ?thesis by (simp add: parse_line_other) blast
  qed
  with Cons.IH [of "parse_line st l"] show ?case
    unfolding foldl_Cons by blast
qed

text \<open>
  C4, as the specification words the body: every non-blank line after the \<open>Subject:\<close>
  line that is not exactly \<open>---\<close> is appended. The code differs on a later line that
  starts with a header prefix (it sets the field and is no body line), on surrounding
  whitespace (the line is appended trimmed) and on a line that is \<open>---\<close> only after
  trimming (it is left out).
\<close>

theorem parse_single_email_body_counterexample:
  "map_of (parse_single_email ''Subject: Meeting\<newline>Date: Friday works for me'') ''body'' = Some []
   \<and> spec_body ''Subject: Meeting\<newline>Date: Friday works for me'' = ''Date: Friday works for me''
   \<and> map_of (parse_single_email ''Subject: Hi\<newline>  indented'') ''body'' = Some ''indented''
   \<and> spec_body ''Subject: Hi\<newline>  indented'' = ''  indented''
   \<and> map_of (parse_single_email ''Subject: Hi\<newline>--- '') ''body'' = Some []
   \<and> spec_body ''Subject: Hi\<newline>--- '' = ''--- ''"
  by code_simp

text \<open>
  C4, amended. Over the non-blank lines of a segment, in order: each of the fields
  \<open>from\<close>, \<open>to\<close>, \<open>date\<close>, \<open>subject\<close> is set by the last line that starts with its
  prefix, wherever that line stands, and is absent when there is none; the body is the
  newline-joined sequence of the trimmed lines after the first \<open>Subject:\<close> line that do
  not start with a header prefix and are not \<open>---\<close> once trimmed; no other key arises,
  so other lines before \<open>Subject:\<close> leave no trace; and the value of a header line whose
  prefix does not occur again in the rest of the line is that rest, trimmed.
\<close>

theorem parse_single_email_fields_and_body:
  "map_of (parse_single_email email_text) ''from'' = field_of_lines ''From:'' (nonblank_lines email_text)
   \<and> map_of (parse_single_email email_text) ''to'' = field_of_lines ''To:'' (nonblank_lines email_text)
   \<and> map_of (parse_single_email email_text) ''date'' = field_of_lines ''Date:'' (nonblank_lines email_text)
   \<and> map_of (parse_single_email email_text) ''subject''
       = field_of_lines ''Subject:'' (nonblank_lines email_text)
   \<and> map_of (parse_single_email email_text) ''body''
       = Some (body_of_lines (nonblank_lines email_text))
   \<and> fst ` set (parse_single_email email_text) \<subseteq> {''from'', ''to'', ''date'', ''subject'', ''body''}
   \<and> (p \<in> {''From:'', ''To:'', ''Date:'', ''Subject:''} \<longrightarrow> \<not> contains rest p
        \<longrightarrow> header_value p (p @ rest) = strip rest)"
proof -
  let ?ls = "nonblank_lines email_text"
  let ?st = "foldl parse_line st0 ?ls"
  have e: "parse_single_email email_text
             = AList.update ''body'' (join ''\<newline>'' (body_lines ?st)) (email_data ?st)"
    by (simp add: parse_single_email_def st0_def Let_def)
  have f: "map_of (parse_single_email email_text) ''from'' = field_of_lines ''From:'' ?ls"
    unfolding e by (simp add: update_conv' foldl_parse_line_field)
  have t: "map_of (parse_single_email email_text) ''to'' = field_of_lines ''To:'' ?ls"
    unfolding e by (simp add: update_conv' foldl_parse_line_field)
  have d: "map_of (parse_single_email email_text) ''date'' = field_of_lines ''Date:'' ?ls"
    unfolding e by (simp add: update_conv' foldl_parse_line_field)
  have s: "map_of (parse_single_email email_text) ''subject'' = field_of_lines ''Subject:'' ?ls"
    unfolding e by (simp add: update_conv' foldl_parse_line_field)
  have b: "map_of (parse_single_email email_text) ''body'' = Some (body_of_lines ?ls)"
    unfolding e by (simp add: update_conv' foldl_parse_line_body st0_def body_of_lines_def)
  have k: "fst ` set (parse_single_email email_text) \<subseteq> {''from'', ''to'', ''date'', ''subject'', ''body''}"
    unfolding e using foldl_parse_line_keys [of st0 ?ls]
    by (auto simp: update_key_set st0_def)
  have r: "p \<in> {''From:'', ''To:'', ''Date:'', ''Subject:''} \<longrightarrow> \<not> contains rest p
        \<longrightarrow> header_value p (p @ rest) = strip rest"
    using replace_prefix_once [of p rest] by (auto simp: header_value_def)
  from f t d s b k r show ?thesis by blast
qed

theorem parse_single_email_fields_and_body_witness:
  "\<not> contains '' Re: hello'' ''Subject:''
   \<and> header_value ''Subject:'' ''Subject: Re: hello'' = ''Re: hello''"
proof -
  have h: "\<not> contains '' Re: hello'' ''Subject:''"
    by code_simp
  have s: "strip '' Re: hello'' = ''Re: hello''"
    by code_simp
  from parse_single_email_fields_and_body [where p = "''Subject:''" and rest = "'' Re: hello''"] h s
  have "header_value ''Subject:'' (''Subject:'' @ '' Re: hello'') = ''Re: hello''"
    by simp
  with h show ?thesis by simp
qed

text \<open>When the prefix occurs again in the line, \<open>replace\<close> removes every occurrence.\<close>

lemma header_value_repeated_prefix:
  "header_value ''Subject:'' ''Subject: Fwd: Subject: hello'' = ''Fwd:  hello''"
  by code_simp

end
